theory Spec2Isabelle
  imports Complex_Main
begin

section \<open>Floating-point values\<close>

text \<open>
  The arrays of \<^verbatim>\<open>nphusl.py\<close> hold IEEE doubles. The model keeps the special values
  the code tests for (\<^verbatim>\<open>np.isnan\<close>, \<^verbatim>\<open>np.isinf\<close>, \<^verbatim>\<open>== -0.0\<close>) and computes
  finite results exactly: rounding and overflow of finite results are not modelled.
  \<open>Fin 0\<close> is \<^verbatim>\<open>+0.0\<close>, \<open>NegZero\<close> is \<^verbatim>\<open>-0.0\<close>.
\<close>

datatype fl = Fin real | NegZero | PInf | NInf | NaN

fun is_nan :: "fl \<Rightarrow> bool" where
  "is_nan NaN = True"
| "is_nan _ = False"

fun is_inf :: "fl \<Rightarrow> bool" where
  "is_inf PInf = True"
| "is_inf NInf = True"
| "is_inf _ = False"

fun val :: "fl \<Rightarrow> real" where
  "val (Fin r) = r"
| "val _ = 0"

fun sign_bit :: "fl \<Rightarrow> bool" where
  "sign_bit (Fin r) = (r < 0)"
| "sign_bit NegZero = True"
| "sign_bit NInf = True"
| "sign_bit _ = False"

definition is_zero :: "fl \<Rightarrow> bool" where
  "is_zero x = (x = Fin 0 \<or> x = NegZero)"

definition is_finite :: "fl \<Rightarrow> bool" where
  "is_finite x = (\<not> is_nan x \<and> \<not> is_inf x)"

text \<open>A finite result \<open>r\<close>; when it is zero its sign is the given one.\<close>

definition fin_signed :: "bool \<Rightarrow> real \<Rightarrow> fl" where
  "fin_signed neg r = (if r = 0 \<and> neg then NegZero else Fin r)"

definition inf_signed :: "bool \<Rightarrow> fl" where
  "inf_signed neg = (if neg then NInf else PInf)"

fun fneg :: "fl \<Rightarrow> fl" where
  "fneg (Fin r) = fin_signed True (- r)"
| "fneg NegZero = Fin 0"
| "fneg PInf = NInf"
| "fneg NInf = PInf"
| "fneg NaN = NaN"

definition fadd :: "fl \<Rightarrow> fl \<Rightarrow> fl" where
  "fadd x y =
     (if is_nan x \<or> is_nan y then NaN
      else if is_inf x then (if is_inf y \<and> x \<noteq> y then NaN else x)
      else if is_inf y then y
      else fin_signed (sign_bit x \<and> sign_bit y) (val x + val y))"

definition fsub :: "fl \<Rightarrow> fl \<Rightarrow> fl" where
  "fsub x y = fadd x (fneg y)"

definition fmul :: "fl \<Rightarrow> fl \<Rightarrow> fl" where
  "fmul x y =
     (if is_nan x \<or> is_nan y then NaN
      else if is_inf x \<or> is_inf y then
        (if is_zero x \<or> is_zero y then NaN else inf_signed (sign_bit x \<noteq> sign_bit y))
      else fin_signed (sign_bit x \<noteq> sign_bit y) (val x * val y))"

definition fdiv :: "fl \<Rightarrow> fl \<Rightarrow> fl" where
  "fdiv x y =
     (if is_nan x \<or> is_nan y then NaN
      else if is_inf x then
        (if is_inf y then NaN else inf_signed (sign_bit x \<noteq> sign_bit y))
      else if is_inf y then fin_signed (sign_bit x \<noteq> sign_bit y) 0
      else if is_zero y then
        (if is_zero x then NaN else inf_signed (sign_bit x \<noteq> sign_bit y))
      else fin_signed (sign_bit x \<noteq> sign_bit y) (val x / val y))"

text \<open>Integer powers (\<^verbatim>\<open>np.power(x, 3)\<close>, \<^verbatim>\<open>x**2\<close>, \<^verbatim>\<open>x ** 3.0\<close>).\<close>

primrec fpown :: "fl \<Rightarrow> nat \<Rightarrow> fl" where
  "fpown x 0 = Fin 1"
| "fpown x (Suc n) = fmul x (fpown x n)"

text \<open>
  Powers with a positive exponent that is not an integer
  (\<^verbatim>\<open>** (1.0 / 3.0)\<close>, \<^verbatim>\<open>** 2.4\<close>, \<^verbatim>\<open>** (1 / 2.4)\<close>, \<^verbatim>\<open>** 0.5\<close>):
  a negative finite base gives NaN.
\<close>

fun fpowr :: "fl \<Rightarrow> real \<Rightarrow> fl" where
  "fpowr NaN e = NaN"
| "fpowr PInf e = PInf"
| "fpowr NInf e = PInf"
| "fpowr NegZero e = Fin 0"
| "fpowr (Fin r) e = (if r < 0 then NaN else Fin (r powr e))"

text \<open>IEEE comparisons: false as soon as one side is NaN; the two zeros are equal.\<close>

fun flt :: "fl \<Rightarrow> fl \<Rightarrow> bool" where
  "flt NaN _ = False"
| "flt _ NaN = False"
| "flt PInf _ = False"
| "flt _ NInf = False"
| "flt NInf _ = True"
| "flt _ PInf = True"
| "flt x y = (val x < val y)"

definition fgt :: "fl \<Rightarrow> fl \<Rightarrow> bool" where
  "fgt x y = flt y x"

definition fle :: "fl \<Rightarrow> fl \<Rightarrow> bool" where
  "fle x y = (\<not> is_nan x \<and> \<not> is_nan y \<and> \<not> flt y x)"

definition feq :: "fl \<Rightarrow> fl \<Rightarrow> bool" where
  "feq x y = (fle x y \<and> fle y x)"

text \<open>\<^verbatim>\<open>np.minimum\<close>: a NaN on either side is returned.\<close>

definition fmin :: "fl \<Rightarrow> fl \<Rightarrow> fl" where
  "fmin a b = (if is_nan a then a else if flt a b then a else b)"

text \<open>\<^verbatim>\<open>np.nan_to_num\<close>: NaN becomes 0, the infinities the largest finite doubles.\<close>

definition DBL_MAX :: real where
  "DBL_MAX = (2 - 1 / 2 ^ 52) * 2 ^ 1023"

fun nan_to_num :: "fl \<Rightarrow> fl" where
  "nan_to_num NaN = Fin 0"
| "nan_to_num PInf = Fin DBL_MAX"
| "nan_to_num NInf = Fin (- DBL_MAX)"
| "nan_to_num x = x"

fun fsin :: "fl \<Rightarrow> fl" where
  "fsin (Fin r) = Fin (sin r)"
| "fsin NegZero = NegZero"
| "fsin _ = NaN"

fun fcos :: "fl \<Rightarrow> fl" where
  "fcos (Fin r) = Fin (cos r)"
| "fcos NegZero = Fin 1"
| "fcos _ = NaN"

text \<open>
  \<^verbatim>\<open>np.arctan2(y, x)\<close> with the special cases of C99: the sign of a zero \<open>y\<close> is kept,
  and a zero \<open>y\<close> with a negative \<open>x\<close> (also \<^verbatim>\<open>-0.0\<close>) gives \<open>\<plusminus>\<pi>\<close>.
\<close>

definition farctan2 :: "fl \<Rightarrow> fl \<Rightarrow> fl" where
  "farctan2 y x =
     (if is_nan y \<or> is_nan x then NaN
      else if is_zero y then
        (if sign_bit x then fin_signed False (if sign_bit y then - pi else pi)
         else fin_signed (sign_bit y) 0)
      else if is_inf y then
        (if x = PInf then Fin (if sign_bit y then - (pi / 4) else pi / 4)
         else if x = NInf then Fin (if sign_bit y then - (3 * pi / 4) else 3 * pi / 4)
         else Fin (if sign_bit y then - (pi / 2) else pi / 2))
      else if x = PInf then fin_signed (sign_bit y) 0
      else if x = NInf then Fin (if sign_bit y then - pi else pi)
      else if is_zero x then Fin (if sign_bit y then - (pi / 2) else pi / 2)
      else if 0 < val x then Fin (arctan (val y / val x))
      else if 0 < val y then Fin (arctan (val y / val x) + pi)
      else Fin (arctan (val y / val x) - pi))"

text \<open>\<^verbatim>\<open>np.degrees\<close> and \<^verbatim>\<open>np.radians\<close>.\<close>

definition fdegrees :: "fl \<Rightarrow> fl" where
  "fdegrees x = fmul x (Fin (180 / pi))"

definition fradians :: "fl \<Rightarrow> fl" where
  "fradians x = fmul x (Fin (pi / 180))"

section \<open>Arrays\<close>

text \<open>
  A flat \<^verbatim>\<open>(N, 3)\<close> array is a list of pixels, a one-dimensional array a list of
  values. \<open>channel\<close> is \<^verbatim>\<open>_channel(data, n)\<close> read as a value.
\<close>

type_synonym pixel = "fl \<times> fl \<times> fl"

fun chan :: "pixel \<Rightarrow> nat \<Rightarrow> fl" where
  "chan (a, b, c) n = (if n = 0 then a else if n = 1 then b else c)"

definition channel :: "pixel list \<Rightarrow> nat \<Rightarrow> fl list" where
  "channel data n = map (\<lambda>p. chan p n) data"

text \<open>Boolean-mask indexing: \<^verbatim>\<open>a[mask]\<close> as a value (a copy of the selected entries).\<close>

definition mask_select :: "'a list \<Rightarrow> bool list \<Rightarrow> 'a list" where
  "mask_select xs msk = map fst (filter snd (zip xs msk))"

text \<open>\<^verbatim>\<open>a[mask] = v\<close> with a scalar \<open>v\<close>.\<close>

definition mask_set :: "'a list \<Rightarrow> bool list \<Rightarrow> 'a \<Rightarrow> 'a list" where
  "mask_set xs msk v = map (\<lambda>(x, b). if b then v else x) (zip xs msk)"

text \<open>
  \<^verbatim>\<open>a[mask] = vs\<close> with an array \<open>vs\<close> holding one value per selected entry. NumPy raises
  when the sizes differ; every call in the code passes a mask as long as the array and
  as many values as the mask selects, and the model leaves the rest of the array as it is
  otherwise.
\<close>

fun mask_assign :: "'a list \<Rightarrow> bool list \<Rightarrow> 'a list \<Rightarrow> 'a list" where
  "mask_assign [] ms vs = []"
| "mask_assign (x # xs) [] vs = x # xs"
| "mask_assign (x # xs) (False # ms) vs = x # mask_assign xs ms vs"
| "mask_assign (x # xs) (True # ms) [] = x # xs"
| "mask_assign (x # xs) (True # ms) (v # vs) = v # mask_assign xs ms vs"

section \<open>Constants\<close>

text \<open>
  The module \<^verbatim>\<open>constants\<close> is not among the sources; its values are a parameter of
  every function that reads them. \<open>M\<close> and \<open>M_INV\<close> are 3x3 matrices given by rows.
\<close>

type_synonym vec3 = "real \<times> real \<times> real"

record constants =
  M :: "vec3 \<times> vec3 \<times> vec3"
  M_INV :: "vec3 \<times> vec3 \<times> vec3"
  EPSILON :: real
  KAPPA :: real
  REF_U :: real
  REF_V :: real
  REF_Y :: real

definition L_MAX :: real where "L_MAX = 9999 / 100"
definition L_MIN :: real where "L_MIN = 1 / 100"

text \<open>
  The constants of the HUSL reference implementation, used where a statement is evaluated
  at a concrete input.
\<close>

definition husl_consts :: constants where
  "husl_consts = \<lparr>
     M = ((32406 / 10000, - 15372 / 10000, - 4986 / 10000),
          (- 9689 / 10000, 18758 / 10000, 415 / 10000),
          (557 / 10000, - 2040 / 10000, 10570 / 10000)),
     M_INV = ((4124 / 10000, 3576 / 10000, 1805 / 10000),
              (2126 / 10000, 7152 / 10000, 722 / 10000),
              (193 / 10000, 1192 / 10000, 9505 / 10000)),
     EPSILON = 8856 / 1000000,
     KAPPA = 9033 / 10,
     REF_U = 19784 / 100000,
     REF_V = 46834 / 100000,
     REF_Y = 1 \<rparr>"

section \<open>The chroma bounds solver\<close>

text \<open>
  \<^verbatim>\<open>M1, M2, M3\<close> are the columns of \<open>M\<close>; the scalars below are arrays with one
  entry per row of \<open>M\<close>.
\<close>

fun col :: "vec3 \<times> vec3 \<times> vec3 \<Rightarrow> nat \<Rightarrow> real list" where
  "col ((a0, a1, a2), (b0, b1, b2), (c0, c1, c2)) n =
     (if n = 0 then [a0, b0, c0] else if n = 1 then [a1, b1, c1] else [a2, b2, c2])"

definition TOP1_SCALAR :: "constants \<Rightarrow> real list" where
  "TOP1_SCALAR c = map (\<lambda>(m1, m3). 284517 * m1 - 94839 * m3) (zip (col (M c) 0) (col (M c) 2))"

definition TOP2_SCALAR :: "constants \<Rightarrow> real list" where
  "TOP2_SCALAR c =
     map (\<lambda>(m1, m2, m3). 838422 * m3 + 769860 * m2 + 731718 * m1)
       (zip (col (M c) 0) (zip (col (M c) 1) (col (M c) 2)))"

definition TOP2_L_SCALAR :: real where "TOP2_L_SCALAR = 769860"

definition BOTTOM_SCALAR :: "constants \<Rightarrow> real list" where
  "BOTTOM_SCALAR c = map (\<lambda>(m2, m3). 632260 * m3 - 126452 * m2) (zip (col (M c) 1) (col (M c) 2))"

definition BOTTOM_CONST :: real where "BOTTOM_CONST = 126452"

text \<open>
  The first half of \<^verbatim>\<open>_bounds\<close>: the array \<^verbatim>\<open>sub2\<close>. \<^verbatim>\<open>sub1\<close> is the cubic term,
  \<^verbatim>\<open>lt_epsilon = sub2 < EPSILON\<close> the mask, and the masked entries are overwritten with
  \<^verbatim>\<open>l_nd.flat[lt_epsilon] / KAPPA\<close>.
\<close>

definition bounds_sub :: "constants \<Rightarrow> fl list \<Rightarrow> fl list" where
  "bounds_sub c l_nd =
     (let sub1 = map (\<lambda>l. fadd l (Fin 16)) l_nd;
          sub1 = map (\<lambda>s. fpown s 3) sub1;
          sub1 = map (\<lambda>s. fdiv s (Fin 1560896)) sub1;
          sub2 = sub1;
          lt_epsilon = map (\<lambda>s. flt s (Fin (EPSILON c))) sub2
      in mask_assign sub2 lt_epsilon
           (map (\<lambda>l. fdiv l (Fin (KAPPA c))) (mask_select l_nd lt_epsilon)))"

text \<open>One boundary line (slope array, intercept array) for a row of scalars and \<open>t\<close>.\<close>

definition bounds_line :: "fl list \<Rightarrow> fl list \<Rightarrow> real \<times> real \<times> real \<Rightarrow> bool \<Rightarrow> fl list \<times> fl list" where
  "bounds_line l_nd sub2 tb t =
     (case tb of (t1, t2, b) \<Rightarrow>
        let top1 = map (\<lambda>s. fmul s (Fin t1)) sub2;
            top2 = map (\<lambda>(l, s). fmul (fmul l s) (Fin t2)) (zip l_nd sub2);
            top2 = (if t then map (\<lambda>(tp, l). fsub tp (fmul l (Fin TOP2_L_SCALAR))) (zip top2 l_nd)
                    else top2);
            bottom = map (\<lambda>s. fmul s (Fin b)) sub2;
            bottom = (if t then map (\<lambda>bt. fadd bt (Fin BOTTOM_CONST)) bottom else bottom)
        in (map (\<lambda>(tp, bt). fdiv tp bt) (zip top1 bottom),
            map (\<lambda>(tp, bt). fdiv tp bt) (zip top2 bottom)))"

text \<open>\<^verbatim>\<open>_bounds\<close>: the generator, as the list of the lines it yields, in order.\<close>

definition bounds :: "constants \<Rightarrow> fl list \<Rightarrow> (fl list \<times> fl list) list" where
  "bounds c l_nd =
     (let sub2 = bounds_sub c l_nd
      in concat (map (\<lambda>tb. map (\<lambda>t. bounds_line l_nd sub2 tb t) [False, True])
                   (zip (TOP1_SCALAR c) (zip (TOP2_SCALAR c) (BOTTOM_SCALAR c)))))"

text \<open>\<^verbatim>\<open>_ray_length(theta, line)\<close>.\<close>

definition ray_length :: "fl list \<Rightarrow> fl list \<times> fl list \<Rightarrow> fl list" where
  "ray_length theta line =
     (case line of (m1, b1) \<Rightarrow>
        map (\<lambda>(b, th, m). fdiv b (fsub (fsin th) (fmul m (fcos th)))) (zip b1 (zip theta m1)))"

text \<open>
  \<^verbatim>\<open>_max_lh_chroma(lch)\<close>: the loop over the lines of \<^verbatim>\<open>_bounds(L)\<close> is a fold whose
  state is the array \<^verbatim>\<open>lengths\<close>, initially all \<^verbatim>\<open>np.inf\<close>.
\<close>

definition max_lh_chroma_step :: "fl list \<Rightarrow> fl list \<Rightarrow> fl list \<times> fl list \<Rightarrow> fl list" where
  "max_lh_chroma_step hrad lengths line =
     (let lens = ray_length hrad line;
          lens = mask_set lens (map is_nan lens) PInf;
          lens = mask_set lens (map (\<lambda>x. flt x (Fin 0)) lens) PInf
      in map (\<lambda>(a, b). fmin a b) (zip lens lengths))"

definition max_lh_chroma :: "constants \<Rightarrow> pixel list \<Rightarrow> fl list" where
  "max_lh_chroma c lch =
     (let L = channel lch 0;
          H = channel lch 2;
          hrad = map (\<lambda>h. fmul (fdiv h (Fin 360)) (Fin (pi * 2))) H;
          lengths = replicate (length lch) PInf
      in foldl (max_lh_chroma_step hrad) lengths (bounds c L))"

text \<open>Three channel arrays written into a fresh \<^verbatim>\<open>(N, 3)\<close> array.\<close>

definition stack3 :: "fl list \<Rightarrow> fl list \<Rightarrow> fl list \<Rightarrow> pixel list" where
  "stack3 a b c = zip a (zip b c)"

section \<open>Conversions in the direction RGB to HUSL\<close>

text \<open>
  \<^verbatim>\<open>_lch_to_husl\<close>. \<^verbatim>\<open>hsl_flat\<close> starts as zeros; \<open>H\<close>, \<open>S\<close>, \<open>L\<close> are its channels,
  updated in the order of the source.
\<close>

definition lch_to_husl :: "constants \<Rightarrow> pixel list \<Rightarrow> pixel list" where
  "lch_to_husl c lch_flat =
     (let L0 = channel lch_flat 0;
          C = channel lch_flat 1;
          H0 = channel lch_flat 2;
          S = replicate (length lch_flat) (Fin 0);
          H = H0;
          L = L0;
          light = map (\<lambda>l. fgt l (Fin L_MAX)) L0;
          dark = map (\<lambda>l. flt l (Fin L_MIN)) L0;
          S = mask_set S light (Fin 0);
          L = mask_set L light (Fin 100);
          S = mask_set S dark (Fin 0);
          L = mask_set L dark (Fin 0);
          remaining = map (\<lambda>(a, b). \<not> (a \<or> b)) (zip light dark);
          mx = max_lh_chroma c (mask_select lch_flat remaining);
          S = mask_assign S remaining
                (map (\<lambda>(cv, m). fmul (fdiv cv m) (Fin 100)) (zip (mask_select C remaining) mx))
      in stack3 H S L)"

section \<open>Conversions in the direction HUSL to RGB\<close>

text \<open>\<^verbatim>\<open>_husl_to_lch\<close>. \<^verbatim>\<open>lch_flat\<close> starts as zeros; \<open>L\<close>, \<open>C\<close>, \<open>H\<close> are its channels.\<close>

definition husl_to_lch :: "constants \<Rightarrow> pixel list \<Rightarrow> pixel list" where
  "husl_to_lch c husl_flat =
     (let H0 = channel husl_flat 0;
          S = channel husl_flat 1;
          L0 = channel husl_flat 2;
          C = replicate (length husl_flat) (Fin 0);
          L = L0;
          H = H0;
          mx = max_lh_chroma c (stack3 L C H);
          C = map (\<lambda>(m, s). fmul (fdiv m (Fin 100)) s) (zip mx S);
          light = map (\<lambda>l. fgt l (Fin L_MAX)) L;
          dark = map (\<lambda>l. flt l (Fin L_MIN)) L;
          L = mask_set L light (Fin 100);
          C = mask_set C light (Fin 0);
          L = mask_set L dark (Fin 0);
          C = mask_set C dark (Fin 0)
      in stack3 L C H)"

section \<open>What the kernels compute for one pixel\<close>

text \<open>
  The kernels work on whole arrays through masks. The functions below say what one entry
  of the result is; the lemmas after them prove that the array functions compute exactly
  that for every entry.
\<close>

definition sub_px :: "constants \<Rightarrow> fl \<Rightarrow> fl" where
  "sub_px c l =
     (let s = fdiv (fpown (fadd l (Fin 16)) 3) (Fin 1560896)
      in if flt s (Fin (EPSILON c)) then fdiv l (Fin (KAPPA c)) else s)"

definition line_px :: "fl \<Rightarrow> fl \<Rightarrow> real \<times> real \<times> real \<Rightarrow> bool \<Rightarrow> fl \<times> fl" where
  "line_px l s tb t =
     (case tb of (t1, t2, b) \<Rightarrow>
        let top1 = fmul s (Fin t1);
            top2 = fmul (fmul l s) (Fin t2);
            top2 = (if t then fsub top2 (fmul l (Fin TOP2_L_SCALAR)) else top2);
            bottom = fmul s (Fin b);
            bottom = (if t then fadd bottom (Fin BOTTOM_CONST) else bottom)
        in (fdiv top1 bottom, fdiv top2 bottom))"

definition bounds_px :: "constants \<Rightarrow> fl \<Rightarrow> (fl \<times> fl) list" where
  "bounds_px c l =
     concat (map (\<lambda>tb. map (\<lambda>t. line_px l (sub_px c l) tb t) [False, True])
               (zip (TOP1_SCALAR c) (zip (TOP2_SCALAR c) (BOTTOM_SCALAR c))))"

definition ray_px :: "fl \<Rightarrow> fl \<times> fl \<Rightarrow> fl" where
  "ray_px th line = (case line of (m, b) \<Rightarrow> fdiv b (fsub (fsin th) (fmul m (fcos th))))"

definition clean_length :: "fl \<Rightarrow> fl" where
  "clean_length x = (if is_nan x then PInf else if flt x (Fin 0) then PInf else x)"

definition hrad_px :: "fl \<Rightarrow> fl" where
  "hrad_px h = fmul (fdiv h (Fin 360)) (Fin (pi * 2))"

definition max_lh_chroma_px :: "constants \<Rightarrow> fl \<Rightarrow> fl \<Rightarrow> fl" where
  "max_lh_chroma_px c l h =
     foldl (\<lambda>len line. fmin (clean_length (ray_px (hrad_px h) line)) len) PInf (bounds_px c l)"

definition lch_to_husl_px :: "constants \<Rightarrow> pixel \<Rightarrow> pixel" where
  "lch_to_husl_px c p =
     (case p of (l, cv, h) \<Rightarrow>
        if fgt l (Fin L_MAX) then (h, Fin 0, if flt l (Fin L_MIN) then Fin 0 else Fin 100)
        else if flt l (Fin L_MIN) then (h, Fin 0, Fin 0)
        else (h, fmul (fdiv cv (max_lh_chroma_px c l h)) (Fin 100), l))"

definition husl_to_lch_px :: "constants \<Rightarrow> pixel \<Rightarrow> pixel" where
  "husl_to_lch_px c p =
     (case p of (h, s, l) \<Rightarrow>
        if flt l (Fin L_MIN) then (Fin 0, Fin 0, h)
        else if fgt l (Fin L_MAX) then (Fin 100, Fin 0, h)
        else (l, fmul (fdiv (max_lh_chroma_px c l h) (Fin 100)) s, h))"

text \<open>The six pairs (row of scalars, \<open>t\<close>) in the order in which \<^verbatim>\<open>_bounds\<close> yields its lines.\<close>

definition line_params :: "constants \<Rightarrow> ((real \<times> real \<times> real) \<times> bool) list" where
  "line_params c =
     concat (map (\<lambda>tb. map (\<lambda>t. (tb, t)) [False, True])
               (zip (TOP1_SCALAR c) (zip (TOP2_SCALAR c) (BOTTOM_SCALAR c))))"

section \<open>The specification's words\<close>

text \<open>
  The solver as the specification describes it, for one lightness and hue: the ray length
  to one line, the exclusion of a negative or NaN length, and what it means to be the
  minimum of the lengths.
\<close>

definition spec_ray_length :: "fl \<Rightarrow> fl \<times> fl \<Rightarrow> fl" where
  "spec_ray_length hue_rad line =
     (case line of (slope, intercept) \<Rightarrow>
        fdiv intercept (fsub (fsin hue_rad) (fmul slope (fcos hue_rad))))"

definition spec_excluded :: "fl \<Rightarrow> fl" where
  "spec_excluded len = (if flt len (Fin 0) \<or> is_nan len then PInf else len)"

definition spec_is_minimum :: "fl \<Rightarrow> fl list \<Rightarrow> bool" where
  "spec_is_minimum m lens = (m \<in> set lens \<and> (\<forall>x \<in> set lens. fle m x))"

text \<open>The term \<open>sub\<close> as the specification describes it: the threshold is on \<open>L\<close>.\<close>

definition spec_sub :: "constants \<Rightarrow> fl \<Rightarrow> fl" where
  "spec_sub c l =
     (if flt l (Fin (EPSILON c)) then fdiv l (Fin (KAPPA c))
      else fdiv (fpown (fadd l (Fin 16)) 3) (Fin 1560896))"

section \<open>The remaining kernels\<close>

text \<open>
  Elementwise kernels address the entries of an \<^verbatim>\<open>(N, 3)\<close> array through a mask of
  the same shape; \<open>ravel\<close> lists the entries in row-major order and \<open>unravel\<close> is
  \<^verbatim>\<open>reshape((size // 3, 3))\<close>.
\<close>

definition ravel :: "pixel list \<Rightarrow> fl list" where
  "ravel ps = concat (map (\<lambda>(a, b, c). [a, b, c]) ps)"

fun unravel :: "fl list \<Rightarrow> pixel list" where
  "unravel (a # b # c # xs) = (a, b, c) # unravel xs"
| "unravel _ = []"

text \<open>\<^verbatim>\<open>_to_linear\<close>, on an array of floats.\<close>

definition to_linear :: "pixel list \<Rightarrow> pixel list" where
  "to_linear rgb_nd =
     (let a = 55 / 1000;
          rgb = ravel rgb_nd;
          xyz_nd = replicate (length rgb) (Fin 0);
          gt = map (\<lambda>x. fgt x (Fin (4045 / 100000))) rgb;
          xyz_nd = mask_assign xyz_nd gt
                     (map (\<lambda>x. fpowr (fdiv (fadd x (Fin a)) (Fin (1 + a))) (24 / 10))
                        (mask_select rgb gt));
          xyz_nd = mask_assign xyz_nd (map Not gt)
                     (map (\<lambda>x. fdiv x (Fin (1292 / 100))) (mask_select rgb (map Not gt)))
      in unravel xyz_nd)"

text \<open>
  What \<^verbatim>\<open>_dot_product(scalars, rgb_nd)\<close> stores for one row of an \<^verbatim>\<open>(N, 3)\<close> array:
  \<^verbatim>\<open>np.sum(scalars[k] * rgb_nd, 1)\<close> adds the three products of a row.
\<close>

definition dot_row :: "vec3 \<Rightarrow> pixel \<Rightarrow> fl" where
  "dot_row s p =
     (case s of (s0, s1, s2) \<Rightarrow> case p of (a, b, c) \<Rightarrow>
        fadd (fadd (fmul (Fin s0) a) (fmul (Fin s1) b)) (fmul (Fin s2) c))"

definition dot_px :: "vec3 \<times> vec3 \<times> vec3 \<Rightarrow> pixel \<Rightarrow> pixel" where
  "dot_px m p = (case m of (r0, r1, r2) \<Rightarrow> (dot_row r0 p, dot_row r1 p, dot_row r2 p))"

text \<open>\<^verbatim>\<open>_rgb_to_xyz\<close>.\<close>

definition rgb_to_xyz :: "constants \<Rightarrow> pixel list \<Rightarrow> pixel list" where
  "rgb_to_xyz c rgb_nd = (let rgbl = to_linear rgb_nd in map (dot_px (M_INV c)) rgbl)"

text \<open>\<^verbatim>\<open>_to_light\<close>.\<close>

definition to_light :: "constants \<Rightarrow> fl list \<Rightarrow> fl list" where
  "to_light c y_flat =
     (let f_flat = replicate (length y_flat) (Fin 0);
          gt = map (\<lambda>y. fgt y (Fin (EPSILON c))) y_flat;
          f_flat = mask_assign f_flat gt
                     (map (\<lambda>y. fsub (fmul (fpowr (fdiv y (Fin (REF_Y c))) (1 / 3)) (Fin 116)) (Fin 16))
                        (mask_select y_flat gt));
          f_flat = mask_assign f_flat (map Not gt)
                     (map (\<lambda>y. fmul (fdiv y (Fin (REF_Y c))) (Fin (KAPPA c)))
                        (mask_select y_flat (map Not gt)))
      in f_flat)"

text \<open>
  \<^verbatim>\<open>_xyz_to_luv\<close>. \<open>xyz_to_luv_ratios\<close> is the pair \<^verbatim>\<open>U_var, V_var\<close> after the two
  \<^verbatim>\<open>np.isinf\<close> assignments. \<open>L\<close>, \<open>U\<close>, \<open>V\<close> are views of \<^verbatim>\<open>luv_flat\<close>: \<open>L\<close> is read
  again after \<^verbatim>\<open>luv_flat[L == 0] = 0\<close>.
\<close>

definition xyz_to_luv_ratios :: "pixel list \<Rightarrow> fl list \<times> fl list" where
  "xyz_to_luv_ratios xyz_flat =
     (let X = channel xyz_flat 0;
          Y = channel xyz_flat 1;
          Z = channel xyz_flat 2;
          den = map (\<lambda>(x, y, z). fadd (fadd x (fmul (Fin 15) y)) (fmul (Fin 3) z)) xyz_flat;
          U_var = map (\<lambda>(x, d). fdiv (fmul (Fin 4) x) d) (zip X den);
          V_var = map (\<lambda>(y, d). fdiv (fmul (Fin 9) y) d) (zip Y den);
          U_var = mask_set U_var (map is_inf U_var) (Fin 0);
          V_var = mask_set V_var (map is_inf V_var) (Fin 0)
      in (U_var, V_var))"

definition xyz_to_luv :: "constants \<Rightarrow> pixel list \<Rightarrow> pixel list" where
  "xyz_to_luv c xyz_flat =
     (let luv_flat = replicate (length xyz_flat) (Fin 0, Fin 0, Fin 0);
          Y = channel xyz_flat 1;
          (U_var, V_var) = xyz_to_luv_ratios xyz_flat;
          luv_flat = stack3 (to_light c Y) (channel luv_flat 1) (channel luv_flat 2);
          luv_flat = mask_set luv_flat (map (\<lambda>l. feq l (Fin 0)) (channel luv_flat 0))
                       (Fin 0, Fin 0, Fin 0);
          L = channel luv_flat 0;
          U = map (\<lambda>(l, u). fmul (fmul l (Fin 13)) (fsub u (Fin (REF_U c)))) (zip L U_var);
          V = map (\<lambda>(l, v). fmul (fmul l (Fin 13)) (fsub v (Fin (REF_V c)))) (zip L V_var);
          luv_flat = stack3 L U V
      in map (\<lambda>(l, u, v). (nan_to_num l, nan_to_num u, nan_to_num v)) luv_flat)"

text \<open>
  \<^verbatim>\<open>_luv_to_lch\<close>. \<^verbatim>\<open>uv_nd = luv_nd[..., 1:2]\<close> is a view of the \<open>U\<close> column of the
  argument, so \<^verbatim>\<open>uv_nd[uv_nd == -0.0] = 0.0\<close> writes into the argument; the function
  returns the contents of the argument after the call and its result, a copy.
\<close>

definition luv_to_lch :: "pixel list \<Rightarrow> pixel list \<times> pixel list" where
  "luv_to_lch luv_nd =
     (let uv_nd = channel luv_nd 1;
          uv_nd = mask_set uv_nd (map (\<lambda>u. feq u NegZero) uv_nd) (Fin 0);
          luv_nd = stack3 (channel luv_nd 0) uv_nd (channel luv_nd 2);
          lch_nd = luv_nd;
          L = channel luv_nd 0;
          U = channel luv_nd 1;
          V = channel luv_nd 2;
          C = map (\<lambda>(u, v). fpowr (fadd (fpown u 2) (fpown v 2)) (1 / 2)) (zip U V);
          hrad = map (\<lambda>(v, u). farctan2 v u) (zip V U);
          H = map fdegrees hrad;
          H = mask_assign H (map (\<lambda>h. flt h (Fin 0)) H)
                (map (\<lambda>h. fadd h (Fin 360)) (mask_select H (map (\<lambda>h. flt h (Fin 0)) H)));
          lch_nd = stack3 L C H
      in (luv_nd, lch_nd))"

text \<open>\<^verbatim>\<open>_rgb_to_lch\<close>, \<^verbatim>\<open>_rgb_to_husl\<close> and \<^verbatim>\<open>_rgb_to_hue\<close>, on an array of floats.\<close>

definition rgb_to_lch :: "constants \<Rightarrow> pixel list \<Rightarrow> pixel list" where
  "rgb_to_lch c rgb = snd (luv_to_lch (xyz_to_luv c (rgb_to_xyz c rgb)))"

definition rgb_to_husl :: "constants \<Rightarrow> pixel list \<Rightarrow> pixel list" where
  "rgb_to_husl c rgb_nd = lch_to_husl c (rgb_to_lch c rgb_nd)"


text \<open>\<^verbatim>\<open>_lch_to_luv\<close>.\<close>

definition lch_to_luv :: "pixel list \<Rightarrow> pixel list" where
  "lch_to_luv lch_nd =
     (let L0 = channel lch_nd 0;
          C = channel lch_nd 1;
          H = channel lch_nd 2;
          hrad = map fradians H;
          U = map (\<lambda>(h, cv). fmul (fcos h) cv) (zip hrad C);
          V = map (\<lambda>(h, cv). fmul (fsin h) cv) (zip hrad C);
          L = L0
      in stack3 L U V)"

text \<open>\<^verbatim>\<open>_from_light\<close>.\<close>

definition from_light :: "constants \<Rightarrow> fl list \<Rightarrow> fl list" where
  "from_light c l_flat =
     (let large = map (\<lambda>l. fgt l (Fin 8)) l_flat;
          small = map Not large;
          out = replicate (length l_flat) (Fin 0);
          out = mask_assign out large
                  (map (\<lambda>l. fmul (Fin (REF_Y c)) (fpown (fdiv (fadd l (Fin 16)) (Fin 116)) 3))
                     (mask_select l_flat large));
          out = mask_assign out small
                  (map (\<lambda>l. fdiv (fmul (Fin (REF_Y c)) l) (Fin (KAPPA c)))
                     (mask_select l_flat small))
      in out)"

text \<open>
  \<^verbatim>\<open>_luv_to_xyz\<close>. \<open>luv_to_xyz_ratios\<close> is the pair \<^verbatim>\<open>U_var, V_var\<close> after the two
  \<^verbatim>\<open>np.isinf\<close> assignments.
\<close>

definition luv_to_xyz_ratios :: "constants \<Rightarrow> pixel list \<Rightarrow> fl list \<times> fl list" where
  "luv_to_xyz_ratios c luv_flat =
     (let L = channel luv_flat 0;
          U = channel luv_flat 1;
          V = channel luv_flat 2;
          L13 = map (\<lambda>l. fmul (Fin 13) l) L;
          U_var = map (\<lambda>(u, d). fadd (fdiv u d) (Fin (REF_U c))) (zip U L13);
          V_var = map (\<lambda>(v, d). fadd (fdiv v d) (Fin (REF_V c))) (zip V L13);
          U_var = mask_set U_var (map is_inf U_var) (Fin 0);
          V_var = mask_set V_var (map is_inf V_var) (Fin 0)
      in (U_var, V_var))"

definition luv_to_xyz :: "constants \<Rightarrow> pixel list \<Rightarrow> pixel list" where
  "luv_to_xyz c luv_flat =
     (let L = channel luv_flat 0;
          Y_var = from_light c L;
          (U_var, V_var) = luv_to_xyz_ratios c luv_flat;
          Y = map (\<lambda>y. fmul y (Fin (REF_Y c))) Y_var;
          X = map (\<lambda>(y, u, v).
                 fdiv (fneg (fmul (fmul (Fin 9) y) u))
                   (fsub (fmul (fsub u (Fin 4)) v) (fmul u v)))
                (zip Y (zip U_var V_var));
          Z = map (\<lambda>(y, v, x).
                 fdiv (fsub (fsub (fmul (Fin 9) y) (fmul (fmul (Fin 15) v) y)) (fmul v x))
                   (fmul (Fin 3) v))
                (zip Y (zip V_var X));
          xyz_flat = stack3 X Y Z;
          xyz_flat = mask_set xyz_flat (map (\<lambda>l. feq l (Fin 0)) L) (Fin 0, Fin 0, Fin 0)
      in map (\<lambda>(x, y, z). (nan_to_num x, nan_to_num y, nan_to_num z)) xyz_flat)"

text \<open>\<^verbatim>\<open>_from_linear\<close>.\<close>

definition from_linear :: "pixel list \<Rightarrow> pixel list" where
  "from_linear xyz_nd =
     (let xyz = ravel xyz_nd;
          rgb_nd = replicate (length xyz) (Fin 0);
          lt = map (\<lambda>x. fle x (Fin (31308 / 10000000))) xyz;
          rgb_nd = mask_assign rgb_nd lt
                     (map (\<lambda>x. fmul (Fin (1292 / 100)) x) (mask_select xyz lt));
          rgb_nd = mask_assign rgb_nd (map Not lt)
                     (map (\<lambda>x. fsub (fmul (Fin (1055 / 1000)) (fpowr x (1 / (24 / 10)))) (Fin (55 / 1000)))
                        (mask_select xyz (map Not lt)))
      in unravel rgb_nd)"

text \<open>\<^verbatim>\<open>_xyz_to_rgb\<close>, \<^verbatim>\<open>_lch_to_rgb\<close> and \<^verbatim>\<open>_husl_to_rgb\<close>.\<close>

definition xyz_to_rgb :: "constants \<Rightarrow> pixel list \<Rightarrow> pixel list" where
  "xyz_to_rgb c xyz_nd = (let xyz_dot = map (dot_px (M c)) xyz_nd in from_linear xyz_dot)"

definition lch_to_rgb :: "constants \<Rightarrow> pixel list \<Rightarrow> pixel list" where
  "lch_to_rgb c lch_nd = xyz_to_rgb c (luv_to_xyz c (lch_to_luv lch_nd))"

definition husl_to_rgb :: "constants \<Rightarrow> pixel list \<Rightarrow> pixel list" where
  "husl_to_rgb c husl_nd = lch_to_rgb c (husl_to_lch c husl_nd)"


section \<open>What the remaining kernels compute for one pixel\<close>

definition map_px :: "(fl \<Rightarrow> fl) \<Rightarrow> pixel \<Rightarrow> pixel" where
  "map_px f p = (case p of (a, b, c) \<Rightarrow> (f a, f b, f c))"

definition to_linear_el :: "fl \<Rightarrow> fl" where
  "to_linear_el x =
     (if fgt x (Fin (4045 / 100000))
      then fpowr (fdiv (fadd x (Fin (55 / 1000))) (Fin (1 + 55 / 1000))) (24 / 10)
      else fdiv x (Fin (1292 / 100)))"

definition to_light_el :: "constants \<Rightarrow> fl \<Rightarrow> fl" where
  "to_light_el c y =
     (if fgt y (Fin (EPSILON c))
      then fsub (fmul (fpowr (fdiv y (Fin (REF_Y c))) (1 / 3)) (Fin 116)) (Fin 16)
      else fmul (fdiv y (Fin (REF_Y c))) (Fin (KAPPA c)))"

definition mask_inf :: "fl \<Rightarrow> fl" where
  "mask_inf x = (if is_inf x then Fin 0 else x)"

definition xyz_den :: "pixel \<Rightarrow> fl" where
  "xyz_den p = (case p of (x, y, z) \<Rightarrow> fadd (fadd x (fmul (Fin 15) y)) (fmul (Fin 3) z))"

definition U_var_px :: "pixel \<Rightarrow> fl" where
  "U_var_px p = mask_inf (fdiv (fmul (Fin 4) (chan p 0)) (xyz_den p))"

definition V_var_px :: "pixel \<Rightarrow> fl" where
  "V_var_px p = mask_inf (fdiv (fmul (Fin 9) (chan p 1)) (xyz_den p))"

definition light_px :: "constants \<Rightarrow> pixel \<Rightarrow> fl" where
  "light_px c p = (let l = to_light_el c (chan p 1) in if feq l (Fin 0) then Fin 0 else l)"

definition xyz_to_luv_px :: "constants \<Rightarrow> pixel \<Rightarrow> pixel" where
  "xyz_to_luv_px c p =
     (let l = light_px c p
      in (nan_to_num l,
          nan_to_num (fmul (fmul l (Fin 13)) (fsub (U_var_px p) (Fin (REF_U c)))),
          nan_to_num (fmul (fmul l (Fin 13)) (fsub (V_var_px p) (Fin (REF_V c))))))"

definition luv_fix_px :: "pixel \<Rightarrow> pixel" where
  "luv_fix_px p = (case p of (l, u, v) \<Rightarrow> (l, if feq u NegZero then Fin 0 else u, v))"

definition hue_px :: "fl \<Rightarrow> fl \<Rightarrow> fl" where
  "hue_px u v =
     (let h = fdegrees (farctan2 v u) in if flt h (Fin 0) then fadd h (Fin 360) else h)"

definition luv_to_lch_px :: "pixel \<Rightarrow> pixel" where
  "luv_to_lch_px p =
     (case luv_fix_px p of (l, u, v) \<Rightarrow>
        (l, fpowr (fadd (fpown u 2) (fpown v 2)) (1 / 2), hue_px u v))"

definition rgb_to_husl_px :: "constants \<Rightarrow> pixel \<Rightarrow> pixel" where
  "rgb_to_husl_px c p =
     lch_to_husl_px c (luv_to_lch_px (xyz_to_luv_px c (dot_px (M_INV c) (map_px to_linear_el p))))"

definition lch_to_luv_px :: "pixel \<Rightarrow> pixel" where
  "lch_to_luv_px p =
     (case p of (l, cv, h) \<Rightarrow> (l, fmul (fcos (fradians h)) cv, fmul (fsin (fradians h)) cv))"

definition from_light_el :: "constants \<Rightarrow> fl \<Rightarrow> fl" where
  "from_light_el c l =
     (if fgt l (Fin 8) then fmul (Fin (REF_Y c)) (fpown (fdiv (fadd l (Fin 16)) (Fin 116)) 3)
      else fdiv (fmul (Fin (REF_Y c)) l) (Fin (KAPPA c)))"

definition luv_U_var_px :: "constants \<Rightarrow> pixel \<Rightarrow> fl" where
  "luv_U_var_px c p =
     mask_inf (fadd (fdiv (chan p 1) (fmul (Fin 13) (chan p 0))) (Fin (REF_U c)))"

definition luv_V_var_px :: "constants \<Rightarrow> pixel \<Rightarrow> fl" where
  "luv_V_var_px c p =
     mask_inf (fadd (fdiv (chan p 2) (fmul (Fin 13) (chan p 0))) (Fin (REF_V c)))"

definition luv_to_xyz_px :: "constants \<Rightarrow> pixel \<Rightarrow> pixel" where
  "luv_to_xyz_px c p =
     (let y = fmul (from_light_el c (chan p 0)) (Fin (REF_Y c));
          u = luv_U_var_px c p;
          v = luv_V_var_px c p;
          x = fdiv (fneg (fmul (fmul (Fin 9) y) u)) (fsub (fmul (fsub u (Fin 4)) v) (fmul u v));
          z = fdiv (fsub (fsub (fmul (Fin 9) y) (fmul (fmul (Fin 15) v) y)) (fmul v x))
                (fmul (Fin 3) v)
      in if feq (chan p 0) (Fin 0) then (Fin 0, Fin 0, Fin 0)
         else (nan_to_num x, nan_to_num y, nan_to_num z))"

definition from_linear_el :: "fl \<Rightarrow> fl" where
  "from_linear_el x =
     (if fle x (Fin (31308 / 10000000)) then fmul (Fin (1292 / 100)) x
      else fsub (fmul (Fin (1055 / 1000)) (fpowr x (1 / (24 / 10)))) (Fin (55 / 1000)))"

definition husl_to_rgb_px :: "constants \<Rightarrow> pixel \<Rightarrow> pixel" where
  "husl_to_rgb_px c p =
     map_px from_linear_el
       (dot_px (M c) (luv_to_xyz_px c (lch_to_luv_px (husl_to_lch_px c p))))"


section \<open>Shapes: the matrix product\<close>

text \<open>
  \<^verbatim>\<open>_dot_product\<close> is the one kernel whose result shape is not the shape of its argument,
  so it is modelled on arrays with their shape: the shape and the entries in row-major
  order. The NumPy functions it calls follow the NumPy reference: \<^verbatim>\<open>*\<close> broadcasts the
  three scalars of a row of the matrix along the last axis, \<^verbatim>\<open>np.sum(a, axis)\<close> adds along
  the last axis, \<^verbatim>\<open>np.dstack\<close> makes its arguments at least three-dimensional
  (\<^verbatim>\<open>()\<close> to \<^verbatim>\<open>(1, 1, 1)\<close>, \<^verbatim>\<open>(N,)\<close> to \<^verbatim>\<open>(1, N, 1)\<close>, \<^verbatim>\<open>(M, N)\<close> to \<^verbatim>\<open>(M, N, 1)\<close>) and concatenates
  them along the third axis, and \<^verbatim>\<open>squeeze\<close> drops every axis of length one.
\<close>

record ndarray =
  shape :: "nat list"
  data :: "fl list"

datatype error = ValueError | InvalidChunkSizeError

definition well_formed :: "ndarray \<Rightarrow> bool" where
  "well_formed a = (length (data a) = prod_list (shape a))"

fun mul3 :: "vec3 \<Rightarrow> fl list \<Rightarrow> fl list" where
  "mul3 (s0, s1, s2) (a # b # c # xs) =
     fmul (Fin s0) a # fmul (Fin s1) b # fmul (Fin s2) c # mul3 (s0, s1, s2) xs"
| "mul3 s xs = []"

text \<open>
  \<^verbatim>\<open>scalars[k] * rgb_nd\<close>: a last axis of length 3 is multiplied entry by entry, a
  last axis of length 1 and a zero-dimensional array are broadcast to length 3, and any
  other length is a \<^verbatim>\<open>ValueError\<close>.
\<close>

definition np_mul_row :: "vec3 \<Rightarrow> ndarray \<Rightarrow> error + ndarray" where
  "np_mul_row s a =
     (if shape a = [] then
        Inr \<lparr>shape = [3], data = concat (map (\<lambda>v. mul3 s [v, v, v]) (data a))\<rparr>
      else if last (shape a) = 3 then
        Inr \<lparr>shape = shape a, data = mul3 s (data a)\<rparr>
      else if last (shape a) = 1 then
        Inr \<lparr>shape = butlast (shape a) @ [3],
             data = concat (map (\<lambda>v. mul3 s [v, v, v]) (data a))\<rparr>
      else Inl ValueError)"

primrec groups :: "nat \<Rightarrow> nat \<Rightarrow> 'a list \<Rightarrow> 'a list list" where
  "groups n 0 xs = []"
| "groups n (Suc k) xs = take n xs # groups n k (drop n xs)"

definition sum_group :: "fl list \<Rightarrow> fl" where
  "sum_group g = (case g of [] \<Rightarrow> Fin 0 | x # xs \<Rightarrow> foldl fadd x xs)"

text \<open>\<^verbatim>\<open>np.sum(a, len(a.shape) - 1)\<close>, for an array of at least one dimension.\<close>

definition np_sum_last :: "ndarray \<Rightarrow> ndarray" where
  "np_sum_last a =
     \<lparr>shape = butlast (shape a),
      data = map sum_group (groups (last (shape a)) (prod_list (butlast (shape a))) (data a))\<rparr>"

definition atleast_3d :: "nat list \<Rightarrow> nat list" where
  "atleast_3d s =
     (case s of [] \<Rightarrow> [1, 1, 1] | [n] \<Rightarrow> [1, n, 1] | [m, n] \<Rightarrow> [m, n, 1] | _ \<Rightarrow> s)"

text \<open>\<^verbatim>\<open>np.dstack((x, y, z))\<close> for three arrays of the same shape.\<close>

definition np_dstack3 :: "ndarray \<Rightarrow> ndarray \<Rightarrow> ndarray \<Rightarrow> ndarray" where
  "np_dstack3 x y z =
     (let s = atleast_3d (shape x);
          count = prod_list (take 2 s);
          block = prod_list (drop 2 s);
          gx = groups block count (data x);
          gy = groups block count (data y);
          gz = groups block count (data z)
      in \<lparr>shape = take 2 s @ [3 * hd (drop 2 s)] @ drop 3 s,
          data = concat (map (\<lambda>(bx, by, bz). bx @ by @ bz) (zip gx (zip gy gz)))\<rparr>)"

definition np_squeeze :: "ndarray \<Rightarrow> ndarray" where
  "np_squeeze a = \<lparr>shape = filter (\<lambda>d. d \<noteq> 1) (shape a), data = data a\<rparr>"

text \<open>\<^verbatim>\<open>_dot_product(scalars, rgb_nd)\<close>.\<close>

definition dot_product :: "vec3 \<times> vec3 \<times> vec3 \<Rightarrow> ndarray \<Rightarrow> error + ndarray" where
  "dot_product scalars rgb_nd =
     (case scalars of (r0, r1, r2) \<Rightarrow>
        case np_mul_row r0 rgb_nd of Inl e \<Rightarrow> Inl e | Inr p0 \<Rightarrow>
        case np_mul_row r1 rgb_nd of Inl e \<Rightarrow> Inl e | Inr p1 \<Rightarrow>
        case np_mul_row r2 rgb_nd of Inl e \<Rightarrow> Inl e | Inr p2 \<Rightarrow>
          let x = np_sum_last p0;
              y = np_sum_last p1;
              z = np_sum_last p2
          in Inr (np_squeeze (np_dstack3 x y z)))"


section \<open>Selection of an implementation\<close>

text \<open>
  The state of the module that \<^verbatim>\<open>optimized\<close> reads and writes: the three flags
  \<^verbatim>\<open>_NUMEXPR_ENABLED\<close>, \<^verbatim>\<open>_CYTHON_ENABLED\<close>, \<^verbatim>\<open>_SIMD_ENABLED\<close>, the three optional extension
  modules (\<^verbatim>\<open>None\<close> when the import failed, otherwise their attributes by name), the four
  dictionaries, and the names bound in the module itself. An implementation is a
  function object, which Python's \<^verbatim>\<open>or\<close> takes as true; \<^verbatim>\<open>None\<close> is taken as false.
\<close>

record 'f module_state =
  NUMEXPR_ENABLED :: bool
  CYTHON_ENABLED :: bool
  SIMD_ENABLED :: bool
  expr :: "(string \<rightharpoonup> 'f) option"
  cyth :: "(string \<rightharpoonup> 'f) option"
  simd :: "(string \<rightharpoonup> 'f) option"
  NUMPY :: "string \<rightharpoonup> 'f"
  NUMEXPR :: "string \<rightharpoonup> 'f"
  CYTHON :: "string \<rightharpoonup> 'f"
  SIMD :: "string \<rightharpoonup> 'f"
  globals :: "string \<rightharpoonup> 'f"

text \<open>\<^verbatim>\<open>getattr(module, name, None)\<close>.\<close>

definition getattr :: "(string \<rightharpoonup> 'f) option \<Rightarrow> string \<Rightarrow> 'f option" where
  "getattr m name = (case m of None \<Rightarrow> None | Some attrs \<Rightarrow> attrs name)"

text \<open>\<^verbatim>\<open>a or b\<close> on values that are a function or \<^verbatim>\<open>None\<close>.\<close>

definition py_or :: "'f option \<Rightarrow> 'f option \<Rightarrow> 'f option" where
  "py_or a b = (case a of Some f \<Rightarrow> Some f | None \<Rightarrow> b)"

text \<open>\<^verbatim>\<open>optimized(fn)\<close>, with \<open>name\<close> for \<^verbatim>\<open>fn.__name__\<close>: the result and the state after.\<close>

definition optimized :: "string \<Rightarrow> 'f \<Rightarrow> 'f module_state \<Rightarrow> 'f \<times> 'f module_state" where
  "optimized name fn st =
     (let st = st\<lparr>NUMPY := (NUMPY st)(name \<mapsto> fn)\<rparr>;
          expr_fn = (if NUMEXPR_ENABLED st then getattr (expr st) name else None);
          cython_fn = (if CYTHON_ENABLED st then getattr (cyth st) name else None);
          simd_fn = (if SIMD_ENABLED st then getattr (simd st) name else None);
          opt_fn = py_or (py_or simd_fn cython_fn) expr_fn;
          st = (case simd_fn of Some f \<Rightarrow> st\<lparr>SIMD := (SIMD st)(name \<mapsto> f)\<rparr> | None \<Rightarrow> st);
          st = (case cython_fn of Some f \<Rightarrow> st\<lparr>CYTHON := (CYTHON st)(name \<mapsto> f)\<rparr> | None \<Rightarrow> st);
          st = (case expr_fn of Some f \<Rightarrow> st\<lparr>NUMEXPR := (NUMEXPR st)(name \<mapsto> f)\<rparr> | None \<Rightarrow> st);
          result_fn = (case opt_fn of Some f \<Rightarrow> f | None \<Rightarrow> fn)
      in (result_fn, st))"




text \<open>The state in which the module's definitions start, and four implementations.\<close>

datatype impl = Reference | Expression | Compiled | Vectorized



section \<open>Chunked execution\<close>









section \<open>Arithmetic on finite values\<close>

lemma fin_signed_nonzero [simp]: "r \<noteq> 0 \<Longrightarrow> fin_signed neg r = Fin r"
  by (simp add: fin_signed_def)

lemma fin_signed_False [simp]: "fin_signed False r = Fin r"
  by (simp add: fin_signed_def)

lemma fadd_Fin: "fadd (Fin a) (Fin b) = Fin (a + b)"
  by (auto simp: fadd_def fin_signed_def)

lemma fneg_Fin: "a \<noteq> 0 \<Longrightarrow> fneg (Fin a) = Fin (- a)"
  by simp


lemma fsub_Fin_zero: "fsub (Fin a) (Fin 0) = Fin a"
  by (simp add: fsub_def fadd_def fin_signed_def)

lemma fmul_Fin: "fmul (Fin a) (Fin b) = fin_signed ((a < 0) \<noteq> (b < 0)) (a * b)"
  by (simp add: fmul_def)

lemma fmul_Fin_nonneg: "0 \<le> a \<Longrightarrow> 0 \<le> b \<Longrightarrow> fmul (Fin a) (Fin b) = Fin (a * b)"
  by (simp add: fmul_def)

lemma fdiv_Fin: "b \<noteq> 0 \<Longrightarrow> fdiv (Fin a) (Fin b) = fin_signed ((a < 0) \<noteq> (b < 0)) (a / b)"
  by (simp add: fdiv_def is_zero_def)

lemma fdiv_Fin_pos: "0 \<le> a \<Longrightarrow> 0 < b \<Longrightarrow> fdiv (Fin a) (Fin b) = Fin (a / b)"
  by (simp add: fdiv_def is_zero_def)

lemma fpown_Fin_pos: "0 < a \<Longrightarrow> fpown (Fin a) n = Fin (a ^ n)"
  by (induction n) (simp_all add: fmul_Fin_nonneg)

lemma fgt_not_flt: "fgt l (Fin a) \<Longrightarrow> b \<le> a \<Longrightarrow> \<not> flt l (Fin b)"
  by (cases l) (auto simp: fgt_def)

lemma L_MIN_le_L_MAX: "L_MIN \<le> L_MAX"
  by (simp add: L_MIN_def L_MAX_def)


section \<open>Lemmas on masks\<close>

lemma zip_map_same: "zip (map f ps) (map g ps) = map (\<lambda>p. (f p, g p)) ps"
  by (induction ps) simp_all

lemma mask_set_map: "mask_set (map f ps) (map g ps) v = map (\<lambda>p. if g p then v else f p) ps"
  by (simp add: mask_set_def zip_map_same)

lemma mask_select_map: "mask_select (map f ps) (map g ps) = map f (filter g ps)"
  by (induction ps) (simp_all add: mask_select_def)

lemma mask_select_self: "mask_select ps (map g ps) = filter g ps"
  using mask_select_map [of "\<lambda>p. p" ps g] by simp

lemma mask_assign_map:
  "mask_assign (map f ps) (map g ps) (map h (filter g ps)) = map (\<lambda>p. if g p then h p else f p) ps"
  by (induction ps) simp_all

lemma replicate_as_map: "replicate (length ps) v = map (\<lambda>p. v) ps"
  by (induction ps) simp_all

section \<open>The solver, entry by entry\<close>

lemma bounds_sub_map: "bounds_sub c ls = map (sub_px c) ls"
proof -
  let ?s = "\<lambda>l. fdiv (fpown (fadd l (Fin 16)) 3) (Fin 1560896)"
  let ?g = "\<lambda>l. flt (?s l) (Fin (EPSILON c))"
  have "bounds_sub c ls =
          mask_assign (map ?s ls) (map ?g ls) (map (\<lambda>l. fdiv l (Fin (KAPPA c))) (filter ?g ls))"
    by (simp add: bounds_sub_def Let_def mask_select_self comp_def)
  also have "\<dots> = map (\<lambda>l. if ?g l then fdiv l (Fin (KAPPA c)) else ?s l) ls"
    by (rule mask_assign_map)
  also have "\<dots> = map (sub_px c) ls"
    by (simp add: sub_px_def Let_def)
  finally show ?thesis .
qed

lemma bounds_line_map:
  "bounds_line (map l ps) (map s ps) tb t =
     (map (\<lambda>p. fst (line_px (l p) (s p) tb t)) ps, map (\<lambda>p. snd (line_px (l p) (s p) tb t)) ps)"
  by (cases tb) (simp add: bounds_line_def line_px_def Let_def zip_map_same comp_def)

lemma concat_map_map: "concat (map (\<lambda>x. map (f x) ys) xs) = map (\<lambda>(x, y). f x y) (concat (map (\<lambda>x. map (\<lambda>y. (x, y)) ys) xs))"
  by (induction xs) (simp_all add: comp_def)

lemma bounds_px_params:
  "bounds_px c l = map (\<lambda>(tb, t). line_px l (sub_px c l) tb t) (line_params c)"
  unfolding bounds_px_def line_params_def by (rule concat_map_map)

lemma bounds_map:
  "bounds c (map l ps) =
     map (\<lambda>(tb, t). (map (\<lambda>p. fst (line_px (l p) (sub_px c (l p)) tb t)) ps,
                      map (\<lambda>p. snd (line_px (l p) (sub_px c (l p)) tb t)) ps)) (line_params c)"
proof -
  have "bounds c (map l ps) =
          concat (map (\<lambda>tb. map (\<lambda>t. bounds_line (map l ps) (map (\<lambda>p. sub_px c (l p)) ps) tb t) [False, True])
                    (zip (TOP1_SCALAR c) (zip (TOP2_SCALAR c) (BOTTOM_SCALAR c))))"
    by (simp add: bounds_def bounds_sub_map comp_def Let_def)
  also have "\<dots> = map (\<lambda>(tb, t). bounds_line (map l ps) (map (\<lambda>p. sub_px c (l p)) ps) tb t) (line_params c)"
    unfolding line_params_def by (rule concat_map_map)
  finally show ?thesis by (simp add: bounds_line_map)
qed

lemma max_lh_chroma_step_map:
  "max_lh_chroma_step (map hr ps) (map acc ps) (map m ps, map b ps) =
     map (\<lambda>p. fmin (clean_length (ray_px (hr p) (m p, b p))) (acc p)) ps"
  by (simp add: max_lh_chroma_step_def ray_length_def Let_def zip_map_same mask_set_map
        comp_def ray_px_def clean_length_def)

lemma foldl_step_map:
  "foldl (max_lh_chroma_step (map hr ps)) (map acc ps)
      (map (\<lambda>k. (map (\<lambda>p. fst (lf k p)) ps, map (\<lambda>p. snd (lf k p)) ps)) ks) =
   map (\<lambda>p. foldl (\<lambda>len k. fmin (clean_length (ray_px (hr p) (lf k p))) len) (acc p) ks) ps"
proof (induction ks arbitrary: acc)
  case Nil
  show ?case by simp
next
  case (Cons k ks)
  show ?case
    by (simp add: max_lh_chroma_step_map Cons.IH)
qed

lemma max_lh_chroma_map:
  "max_lh_chroma c ps = map (\<lambda>p. max_lh_chroma_px c (chan p 0) (chan p 2)) ps"
proof -
  let ?lf = "\<lambda>k p. case k of (tb, t) \<Rightarrow> line_px (chan p 0) (sub_px c (chan p 0)) tb t"
  have b: "bounds c (channel ps 0) =
      map (\<lambda>k. (map (\<lambda>p. fst (?lf k p)) ps, map (\<lambda>p. snd (?lf k p)) ps)) (line_params c)"
    unfolding channel_def bounds_map by (rule map_cong) (auto split: prod.splits)
  have "max_lh_chroma c ps =
      foldl (max_lh_chroma_step (map (\<lambda>p. hrad_px (chan p 2)) ps)) (map (\<lambda>p. PInf) ps)
        (bounds c (channel ps 0))"
    by (simp add: max_lh_chroma_def Let_def channel_def comp_def hrad_px_def replicate_as_map)
  also have "\<dots> = map (\<lambda>p. foldl (\<lambda>len k. fmin (clean_length (ray_px (hrad_px (chan p 2)) (?lf k p))) len)
                            PInf (line_params c)) ps"
    unfolding b by (rule foldl_step_map)
  also have "\<dots> = map (\<lambda>p. max_lh_chroma_px c (chan p 0) (chan p 2)) ps"
    by (simp add: max_lh_chroma_px_def bounds_px_params foldl_map split_def)
  finally show ?thesis .
qed

section \<open>The HUSL kernels, entry by entry\<close>

lemma lch_to_husl_map: "lch_to_husl c ps = map (lch_to_husl_px c) ps"
proof -
  let ?light = "\<lambda>p. fgt (chan p 0) (Fin L_MAX)"
  let ?dark = "\<lambda>p. flt (chan p 0) (Fin L_MIN)"
  let ?rem = "\<lambda>p. \<not> (?light p \<or> ?dark p)"
  let ?sat = "\<lambda>p. fmul (fdiv (chan p 1) (max_lh_chroma_px c (chan p 0) (chan p 2))) (Fin 100)"
  have "lch_to_husl c ps =
          stack3 (map (\<lambda>p. chan p 2) ps)
                 (map (\<lambda>p. if ?rem p then ?sat p else Fin 0) ps)
                 (map (\<lambda>p. if ?dark p then Fin 0 else if ?light p then Fin 100 else chan p 0) ps)"
    by (simp add: lch_to_husl_def Let_def channel_def replicate_as_map mask_set_map zip_map_same
          mask_select_map mask_select_self max_lh_chroma_map mask_assign_map comp_def
        cong: if_cong)
  also have "\<dots> = map (lch_to_husl_px c) ps"
    by (auto simp: stack3_def zip_map_same lch_to_husl_px_def split: prod.splits)
  finally show ?thesis .
qed

lemma husl_to_lch_map: "husl_to_lch c ps = map (husl_to_lch_px c) ps"
proof -
  let ?light = "\<lambda>p. fgt (chan p 2) (Fin L_MAX)"
  let ?dark = "\<lambda>p. flt (chan p 2) (Fin L_MIN)"
  have mx: "max_lh_chroma c (stack3 (map (\<lambda>p. chan p 2) ps) (map (\<lambda>p. Fin 0) ps) (map (\<lambda>p. chan p 0) ps))
         = map (\<lambda>p. max_lh_chroma_px c (chan p 2) (chan p 0)) ps"
    by (simp add: max_lh_chroma_map stack3_def zip_map_same comp_def)
  have "husl_to_lch c ps =
          stack3 (map (\<lambda>p. if ?dark p then Fin 0 else if ?light p then Fin 100 else chan p 2) ps)
                 (map (\<lambda>p. if ?dark p then Fin 0 else if ?light p then Fin 0
                        else fmul (fdiv (max_lh_chroma_px c (chan p 2) (chan p 0)) (Fin 100)) (chan p 1)) ps)
                 (map (\<lambda>p. chan p 0) ps)"
    unfolding husl_to_lch_def Let_def channel_def replicate_as_map mx mask_set_map zip_map_same
      map_map comp_def prod.case
    by simp
  also have "\<dots> = map (husl_to_lch_px c) ps"
    by (auto simp: stack3_def zip_map_same husl_to_lch_px_def split: prod.splits)
  finally show ?thesis .
qed

section \<open>Lightness extremes\<close>

text \<open>
  C4, as the code has it. The masks of \<^verbatim>\<open>_lch_to_husl\<close> and \<^verbatim>\<open>_husl_to_lch\<close> are
  \<^verbatim>\<open>L > L_MAX\<close> and \<^verbatim>\<open>L < L_MIN\<close>, both strict. For every pixel of the array whose
  lightness is above 99.99 the LCH-to-HUSL conversion gives saturation 0 and lightness
  exactly 100, and for every pixel whose lightness is below 0.01 saturation 0 and
  lightness exactly 0, whatever the chroma; in the HUSL-to-LCH direction the same pixels
  get chroma 0 and lightness 100 or 0. The hue is passed through.
\<close>

theorem lightness_extremes_strict:
  assumes "i < length ps" and "ps ! i = (x, y, z)"
  shows "(fgt x (Fin L_MAX) \<longrightarrow> lch_to_husl c ps ! i = (z, Fin 0, Fin 100))
       \<and> (flt x (Fin L_MIN) \<longrightarrow> lch_to_husl c ps ! i = (z, Fin 0, Fin 0))
       \<and> (fgt z (Fin L_MAX) \<longrightarrow> husl_to_lch c ps ! i = (Fin 100, Fin 0, x))
       \<and> (flt z (Fin L_MIN) \<longrightarrow> husl_to_lch c ps ! i = (Fin 0, Fin 0, x))"
  using assms fgt_not_flt [OF _ L_MIN_le_L_MAX]
  by (auto simp: lch_to_husl_map husl_to_lch_map lch_to_husl_px_def husl_to_lch_px_def)

text \<open>The theorem at a white and a black pixel, in both directions.\<close>

theorem lightness_extremes_strict_witness:
  "lch_to_husl husl_consts [(Fin 100, Fin 5, Fin 30), (Fin 0, Fin 5, Fin 30)] ! 0 = (Fin 30, Fin 0, Fin 100)
   \<and> lch_to_husl husl_consts [(Fin 100, Fin 5, Fin 30), (Fin 0, Fin 5, Fin 30)] ! 1 = (Fin 30, Fin 0, Fin 0)
   \<and> husl_to_lch husl_consts [(Fin 30, Fin 5, Fin 100), (Fin 30, Fin 5, Fin 0)] ! 0 = (Fin 100, Fin 0, Fin 30)
   \<and> husl_to_lch husl_consts [(Fin 30, Fin 5, Fin 100), (Fin 30, Fin 5, Fin 0)] ! 1 = (Fin 0, Fin 0, Fin 30)"
  using lightness_extremes_strict [of 0 "[(Fin 100, Fin 5, Fin 30), (Fin 0, Fin 5, Fin 30)]" "Fin 100" "Fin 5" "Fin 30" husl_consts]
    lightness_extremes_strict [of 1 "[(Fin 100, Fin 5, Fin 30), (Fin 0, Fin 5, Fin 30)]" "Fin 0" "Fin 5" "Fin 30" husl_consts]
    lightness_extremes_strict [of 0 "[(Fin 30, Fin 5, Fin 100), (Fin 30, Fin 5, Fin 0)]" "Fin 30" "Fin 5" "Fin 100" husl_consts]
    lightness_extremes_strict [of 1 "[(Fin 30, Fin 5, Fin 100), (Fin 30, Fin 5, Fin 0)]" "Fin 30" "Fin 5" "Fin 0" husl_consts]
  by (simp add: L_MAX_def L_MIN_def fgt_def)

text \<open>
  C4 as the claim words it, with \<open>L \<ge> 99.99\<close> and \<open>L \<le> 0.01\<close>, fails at the thresholds
  themselves: a pixel of lightness exactly 99.99 (or 0.01) is in neither mask and keeps
  its lightness in both directions.
\<close>

theorem lightness_extremes_at_threshold:
  "fle (Fin L_MAX) (Fin (9999 / 100))
   \<and> channel (lch_to_husl husl_consts [(Fin (9999 / 100), Fin 5, Fin 30)]) 2 = [Fin (9999 / 100)]
   \<and> lch_to_husl husl_consts [(Fin (9999 / 100), Fin 5, Fin 30)] ! 0 \<noteq> (Fin 30, Fin 0, Fin 100)
   \<and> fle (Fin (1 / 100)) (Fin L_MIN)
   \<and> channel (lch_to_husl husl_consts [(Fin (1 / 100), Fin 5, Fin 30)]) 2 = [Fin (1 / 100)]
   \<and> channel (husl_to_lch husl_consts [(Fin 30, Fin 5, Fin (9999 / 100))]) 0 = [Fin (9999 / 100)]
   \<and> channel (husl_to_lch husl_consts [(Fin 30, Fin 5, Fin (1 / 100))]) 0 = [Fin (1 / 100)]"
  by (simp add: lch_to_husl_map husl_to_lch_map lch_to_husl_px_def husl_to_lch_px_def
        channel_def L_MAX_def L_MIN_def fgt_def fle_def)

section \<open>The intermediate term of the bounds\<close>

text \<open>
  C6, as the code has it. In \<^verbatim>\<open>_bounds\<close> every entry of \<^verbatim>\<open>sub2\<close> is the cubic term
  \<open>(L + 16)^3 / 1560896\<close>, except where that cubic term itself is below \<^verbatim>\<open>EPSILON\<close>:
  there the entry is \<open>L / KAPPA\<close>. The comparison is on the cubic term, not on \<open>L\<close>.
\<close>

theorem bounds_sub_threshold_on_cubic:
  "bounds_sub c l_nd =
     map (\<lambda>l. if flt (fdiv (fpown (fadd l (Fin 16)) 3) (Fin 1560896)) (Fin (EPSILON c))
               then fdiv l (Fin (KAPPA c))
               else fdiv (fpown (fadd l (Fin 16)) 3) (Fin 1560896)) l_nd"
  by (simp add: bounds_sub_map sub_px_def Let_def)

lemma cube_17: "fdiv (fpown (fadd (Fin 1) (Fin 16)) 3) (Fin 1560896) = Fin (4913 / 1560896)"
  by (simp add: fadd_Fin fpown_Fin_pos fdiv_Fin_pos)

text \<open>
  C6 as the claim words it, with the threshold on \<open>L\<close>, fails at \<open>L = 1\<close> with the
  reference constants: 1 is not below \<^verbatim>\<open>EPSILON\<close>, yet the cubic term \<open>4913 / 1560896\<close>
  is, so the code stores \<open>1 / KAPPA\<close> where the claim has the cubic term.
\<close>

theorem bounds_sub_at_one:
  "\<not> flt (Fin 1) (Fin (EPSILON husl_consts))
   \<and> bounds_sub husl_consts [Fin 1] = [Fin (10 / 9033)]
   \<and> spec_sub husl_consts (Fin 1) = Fin (4913 / 1560896)
   \<and> bounds_sub husl_consts [Fin 1] \<noteq> map (spec_sub husl_consts) [Fin 1]"
  by (simp add: bounds_sub_map sub_px_def spec_sub_def cube_17 husl_consts_def fdiv_Fin_pos)


section \<open>The maximum chroma is the minimum ray length\<close>

lemma flt_asym: "flt a b \<Longrightarrow> \<not> flt b a"
  by (cases a; cases b) simp_all

lemma flt_irrefl: "\<not> flt a a"
  by (cases a) simp_all

lemma flt_not_nan: "flt a b \<Longrightarrow> \<not> is_nan a \<and> \<not> is_nan b"
  by (cases a; cases b) simp_all

lemma fle_trans: "fle a b \<Longrightarrow> fle b c \<Longrightarrow> fle a c"
  by (cases a; cases b; cases c) (simp_all add: fle_def)

lemma fle_refl: "\<not> is_nan a \<Longrightarrow> fle a a"
  by (cases a) (simp_all add: fle_def)

lemma fle_PInf: "fle PInf x \<Longrightarrow> x = PInf"
  by (cases x) (simp_all add: fle_def)

lemma fmin_cases:
  assumes "\<not> is_nan a" and "\<not> is_nan b"
  shows "(fmin a b = a \<or> fmin a b = b) \<and> fle (fmin a b) a \<and> fle (fmin a b) b"
proof (cases "flt a b")
  case True
  then show ?thesis using assms flt_asym [of a b] by (simp add: fmin_def fle_def flt_irrefl)
next
  case False
  then show ?thesis using assms by (simp add: fmin_def fle_def flt_irrefl)
qed

lemma clean_length_not_nan: "\<not> is_nan (clean_length x)"
  by (cases x) (simp_all add: clean_length_def)

lemma running_minimum:
  assumes "\<not> is_nan a" and "\<forall>x \<in> set xs. \<not> is_nan (g x)"
  shows "(foldl (\<lambda>len x. fmin (g x) len) a xs = a \<or> foldl (\<lambda>len x. fmin (g x) len) a xs \<in> g ` set xs)
       \<and> fle (foldl (\<lambda>len x. fmin (g x) len) a xs) a
       \<and> (\<forall>x \<in> set xs. fle (foldl (\<lambda>len x. fmin (g x) len) a xs) (g x))"
  using assms
proof (induction xs arbitrary: a)
  case Nil
  then show ?case by (simp add: fle_refl)
next
  case (Cons y ys)
  let ?b = "fmin (g y) a"
  let ?r = "foldl (\<lambda>len x. fmin (g x) len) ?b ys"
  have gy: "\<not> is_nan (g y)" using Cons.prems by simp
  have m: "(?b = g y \<or> ?b = a) \<and> fle ?b (g y) \<and> fle ?b a"
    using fmin_cases [OF gy Cons.prems(1)] by simp
  then have nb: "\<not> is_nan ?b" by (auto simp: fle_def)
  have ih: "(?r = ?b \<or> ?r \<in> g ` set ys) \<and> fle ?r ?b \<and> (\<forall>x \<in> set ys. fle ?r (g x))"
    using Cons.IH [OF nb] Cons.prems(2) by simp
  have "fle ?r a" "fle ?r (g y)"
    using ih m fle_trans by blast+
  moreover have "?r = a \<or> ?r \<in> g ` set (y # ys)"
    using ih m by auto
  ultimately show ?case using ih by simp
qed

lemma minimum_from_inf:
  assumes "xs \<noteq> []" and "\<forall>x \<in> set xs. \<not> is_nan (g x)"
  shows "spec_is_minimum (foldl (\<lambda>len x. fmin (g x) len) PInf xs) (map g xs)"
proof -
  let ?r = "foldl (\<lambda>len x. fmin (g x) len) PInf xs"
  have r: "(?r = PInf \<or> ?r \<in> g ` set xs) \<and> (\<forall>x \<in> set xs. fle ?r (g x))"
    using running_minimum [of PInf xs g] assms(2) by simp
  have "?r \<in> g ` set xs"
  proof (cases "?r = PInf")
    case True
    obtain x where x: "x \<in> set xs" using assms(1) by (cases xs) auto
    then have "g x = PInf" using r True fle_PInf by metis
    then show ?thesis using x True by (metis imageI)
  next
    case False
    then show ?thesis using r by blast
  qed
  then show ?thesis using r by (simp add: spec_is_minimum_def)
qed

lemma length_line_params: "length (line_params c) = 6"
proof -
  obtain a0 a1 a2 b0 b1 b2 d0 d1 d2 where m: "M c = ((a0, a1, a2), (b0, b1, b2), (d0, d1, d2))"
    by (metis prod.exhaust)
  show ?thesis
    by (simp add: line_params_def TOP1_SCALAR_def TOP2_SCALAR_def BOTTOM_SCALAR_def m)
qed

lemma hrad_px_radians: "hrad_px h = fradians h"
proof (cases h)
  case (Fin r)
  then show ?thesis
    by (cases "r = 0") (simp_all add: hrad_px_def fradians_def fdiv_Fin fmul_Fin)
qed (simp_all add: hrad_px_def fradians_def fdiv_def fmul_def is_zero_def inf_signed_def fin_signed_def)

lemma clean_length_spec: "clean_length x = spec_excluded x"
  by (auto simp: clean_length_def spec_excluded_def)

lemma ray_px_spec: "ray_px th line = spec_ray_length th line"
  by (simp add: ray_px_def spec_ray_length_def)

text \<open>
  C5. For every pixel of the array passed to \<^verbatim>\<open>_max_lh_chroma\<close>, \<^verbatim>\<open>_bounds\<close> yields six
  lines, and the entry of the result for that pixel is the minimum of the six ray lengths
  \<open>intercept / (sin hue_rad - slope * cos hue_rad)\<close>, one per line, where a length that
  is negative or NaN counts as infinite: the entry is one of the six and is less than or
  equal to each of them.
\<close>

theorem max_lh_chroma_is_minimum:
  assumes "i < length lch"
  shows "length (bounds c (channel lch 0)) = 6
       \<and> spec_is_minimum (max_lh_chroma c lch ! i)
           (map (\<lambda>line. spec_excluded
                   (spec_ray_length (fradians (chan (lch ! i) 2)) (fst line ! i, snd line ! i)))
              (bounds c (channel lch 0)))"
proof -
  let ?l = "chan (lch ! i) 0" and ?h = "chan (lch ! i) 2"
  let ?g = "\<lambda>line. spec_excluded (spec_ray_length (fradians ?h) line)"
  let ?k = "\<lambda>(tb, t). line_px ?l (sub_px c ?l) tb t"
  have ne: "line_params c \<noteq> []" using length_line_params [of c] by auto
  have b: "bounds c (channel lch 0) =
      map (\<lambda>(tb, t). (map (\<lambda>p. fst (line_px (chan p 0) (sub_px c (chan p 0)) tb t)) lch,
                       map (\<lambda>p. snd (line_px (chan p 0) (sub_px c (chan p 0)) tb t)) lch)) (line_params c)"
    unfolding channel_def by (rule bounds_map)
  have lines: "map (\<lambda>line. ?g (fst line ! i, snd line ! i)) (bounds c (channel lch 0)) =
      map (\<lambda>k. ?g (?k k)) (line_params c)"
    unfolding b using assms by (simp add: split_def)
  have "max_lh_chroma c lch ! i = foldl (\<lambda>len k. fmin (?g (?k k)) len) PInf (line_params c)"
    using assms
    by (simp add: max_lh_chroma_map max_lh_chroma_px_def bounds_px_params foldl_map
          hrad_px_radians clean_length_spec ray_px_spec)
  moreover have "spec_is_minimum (foldl (\<lambda>len k. fmin (?g (?k k)) len) PInf (line_params c))
      (map (\<lambda>k. ?g (?k k)) (line_params c))"
    using ne by (intro minimum_from_inf) (simp_all add: clean_length_not_nan flip: clean_length_spec)
  ultimately have "spec_is_minimum (max_lh_chroma c lch ! i)
      (map (\<lambda>line. ?g (fst line ! i, snd line ! i)) (bounds c (channel lch 0)))"
    by (simp only: lines)
  moreover have "length (bounds c (channel lch 0)) = 6"
    by (simp add: b length_line_params)
  ultimately show ?thesis by simp
qed

text \<open>The theorem at the one-pixel array of lightness 50 and hue 0, with the reference constants.\<close>

theorem max_lh_chroma_is_minimum_witness:
  "length (bounds husl_consts (channel [(Fin 50, Fin 10, Fin 0)] 0)) = 6
   \<and> spec_is_minimum (max_lh_chroma husl_consts [(Fin 50, Fin 10, Fin 0)] ! 0)
        (map (\<lambda>line. spec_excluded
                (spec_ray_length (fradians (Fin 0)) (fst line ! 0, snd line ! 0)))
           (bounds husl_consts (channel [(Fin 50, Fin 10, Fin 0)] 0)))"
  using max_lh_chroma_is_minimum [of 0 "[(Fin 50, Fin 10, Fin 0)]" husl_consts]
  by simp

section \<open>The remaining kernels, entry by entry\<close>

lemma unravel_ravel_map: "unravel (map f (ravel ps)) = map (map_px f) ps"
  by (induction ps) (auto simp: ravel_def map_px_def)

lemma elementwise_two_masks:
  "mask_assign (mask_assign (map (\<lambda>x. z) xs) (map g xs) (map f1 (filter g xs)))
      (map (\<lambda>x. \<not> g x) xs) (map f2 (filter (\<lambda>x. \<not> g x) xs)) =
   map (\<lambda>x. if g x then f1 x else f2 x) xs"
proof -
  have "mask_assign (map (\<lambda>x. z) xs) (map g xs) (map f1 (filter g xs)) =
        map (\<lambda>x. if g x then f1 x else z) xs"
    by (rule mask_assign_map)
  then show ?thesis
    by (simp add: mask_assign_map cong: if_cong)
qed

lemma to_linear_map: "to_linear ps = map (map_px to_linear_el) ps"
proof -
  have "to_linear ps = unravel (map to_linear_el (ravel ps))"
    unfolding to_linear_def Let_def replicate_as_map mask_select_self map_map comp_def
      elementwise_two_masks to_linear_el_def ..
  then show ?thesis by (simp add: unravel_ravel_map)
qed

lemma from_linear_map: "from_linear ps = map (map_px from_linear_el) ps"
proof -
  have "from_linear ps = unravel (map from_linear_el (ravel ps))"
    unfolding from_linear_def Let_def replicate_as_map mask_select_self map_map comp_def
      elementwise_two_masks from_linear_el_def ..
  then show ?thesis by (simp add: unravel_ravel_map)
qed

lemma to_light_map: "to_light c ys = map (to_light_el c) ys"
  unfolding to_light_def Let_def replicate_as_map mask_select_self map_map comp_def
    elementwise_two_masks to_light_el_def ..

lemma from_light_map: "from_light c ls = map (from_light_el c) ls"
  unfolding from_light_def Let_def replicate_as_map mask_select_self map_map comp_def
    elementwise_two_masks from_light_el_def ..
lemma xyz_to_luv_ratios_map:
  "xyz_to_luv_ratios ps = (map U_var_px ps, map V_var_px ps)"
  by (simp add: xyz_to_luv_ratios_def Let_def channel_def zip_map_same mask_set_map comp_def
        U_var_px_def V_var_px_def mask_inf_def xyz_den_def split_def)

lemma xyz_to_luv_map: "xyz_to_luv c ps = map (xyz_to_luv_px c) ps"
  by (simp add: xyz_to_luv_def xyz_to_luv_ratios_map Let_def channel_def replicate_as_map
        to_light_map stack3_def zip_map_same mask_set_map comp_def xyz_to_luv_px_def light_px_def
      cong: if_cong)

lemma luv_to_lch_map:
  "luv_to_lch ps = (map luv_fix_px ps, map luv_to_lch_px ps)"
proof -
  let ?neg = "\<lambda>p. flt (fdegrees (farctan2 (chan (luv_fix_px p) 2) (chan (luv_fix_px p) 1))) (Fin 0)"
  have fixed: "stack3 (map (\<lambda>p. chan p 0) ps)
               (map (\<lambda>p. if feq (chan p 1) NegZero then Fin 0 else chan p 1) ps)
               (map (\<lambda>p. chan p 2) ps) = map luv_fix_px ps"
    by (auto simp: stack3_def zip_map_same luv_fix_px_def)
  show ?thesis
    unfolding luv_to_lch_def Let_def channel_def mask_set_map zip_map_same map_map comp_def
      prod.case fixed mask_select_map mask_assign_map
    by (auto simp: stack3_def zip_map_same luv_to_lch_px_def hue_px_def Let_def split: prod.splits)
qed

lemma lch_to_luv_map: "lch_to_luv ps = map lch_to_luv_px ps"
  by (auto simp: lch_to_luv_def Let_def channel_def stack3_def zip_map_same lch_to_luv_px_def)

lemma luv_to_xyz_ratios_map:
  "luv_to_xyz_ratios c ps = (map (luv_U_var_px c) ps, map (luv_V_var_px c) ps)"
  by (simp add: luv_to_xyz_ratios_def Let_def channel_def zip_map_same mask_set_map comp_def
        luv_U_var_px_def luv_V_var_px_def mask_inf_def)

lemma luv_to_xyz_map: "luv_to_xyz c ps = map (luv_to_xyz_px c) ps"
  by (simp add: luv_to_xyz_def luv_to_xyz_ratios_map Let_def channel_def from_light_map
        stack3_def zip_map_same mask_set_map comp_def luv_to_xyz_px_def
      cong: if_cong)

section \<open>The two pipelines, entry by entry\<close>

lemma rgb_to_husl_map: "rgb_to_husl c ps = map (rgb_to_husl_px c) ps"
  by (simp add: rgb_to_husl_def rgb_to_lch_def rgb_to_xyz_def to_linear_map xyz_to_luv_map
        luv_to_lch_map lch_to_husl_map rgb_to_husl_px_def comp_def)

lemma husl_to_rgb_map: "husl_to_rgb c ps = map (husl_to_rgb_px c) ps"
  by (simp add: husl_to_rgb_def lch_to_rgb_def xyz_to_rgb_def husl_to_lch_map lch_to_luv_map
        luv_to_xyz_map from_linear_map husl_to_rgb_px_def comp_def)





lemma fmul_Fin_finite: "is_finite (fmul (Fin k) x) \<Longrightarrow> k \<noteq> 0 \<Longrightarrow> is_finite x"
  by (cases x) (auto simp: fmul_def is_finite_def is_zero_def inf_signed_def split: if_splits)



lemma fsub_NaN: "fsub NaN y = NaN"
  by (simp add: fsub_def fadd_def)

lemma fmul_NaN: "fmul x NaN = NaN"
  by (simp add: fmul_def)





section \<open>Division by zero in the chromaticity ratios\<close>



section \<open>The shape of the matrix product\<close>

lemma mul3_ravel:
  "mul3 (s0, s1, s2) (ravel ps) =
   ravel (map (\<lambda>(a, b, c). (fmul (Fin s0) a, fmul (Fin s1) b, fmul (Fin s2) c)) ps)"
  by (induction ps) (auto simp: ravel_def)

lemma groups_ravel: "groups 3 (length ps) (ravel ps) = map (\<lambda>(a, b, c). [a, b, c]) ps"
  by (induction ps) (auto simp: ravel_def)

lemma groups_singletons: "groups (Suc 0) (length xs) xs = map (\<lambda>v. [v]) xs"
  by (induction xs) auto

lemma sum_mul_row:
  "np_mul_row s \<lparr>shape = [length ps, 3], data = ravel ps\<rparr> = Inr p \<Longrightarrow>
   np_sum_last p = \<lparr>shape = [length ps], data = map (dot_row s) ps\<rparr>"
  by (cases s)
    (auto simp: np_mul_row_def np_sum_last_def mul3_ravel groups_ravel[of "map f ps" for f, simplified]
      sum_group_def dot_row_def comp_def split: prod.splits)

lemma mul_row_ok:
  "\<exists>p. np_mul_row s \<lparr>shape = [length ps, 3], data = ravel ps\<rparr> = Inr p"
  by (simp add: np_mul_row_def)

lemma dstack_columns:
  assumes "length ys = length xs" "length zs = length xs"
  shows "np_dstack3 \<lparr>shape = [length xs], data = xs\<rparr> \<lparr>shape = [length xs], data = ys\<rparr>
     \<lparr>shape = [length xs], data = zs\<rparr> =
   \<lparr>shape = [1, length xs, 3], data = ravel (zip xs (zip ys zs))\<rparr>"
proof -
  have gy: "groups (Suc 0) (length xs) ys = map (\<lambda>v. [v]) ys"
    using groups_singletons[of ys] assms by simp
  have gz: "groups (Suc 0) (length xs) zs = map (\<lambda>v. [v]) zs"
    using groups_singletons[of zs] assms by simp
  show ?thesis
    by (simp add: np_dstack3_def atleast_3d_def Let_def groups_singletons gy gz
        zip_map_map ravel_def comp_def split_def)
qed

text \<open>
  On an array of shape \<^verbatim>\<open>(N, 3)\<close> the product is the array of the products of the
  matrix with each row; its shape is \<^verbatim>\<open>(N, 3)\<close> again unless \<^verbatim>\<open>N = 1\<close>.
\<close>

lemma dot_product_rows:
  "dot_product m \<lparr>shape = [length ps, 3], data = ravel ps\<rparr> =
   Inr \<lparr>shape = (if length ps = 1 then [3] else [length ps, 3]),
        data = ravel (map (dot_px m) ps)\<rparr>"
proof -
  obtain r0 r1 r2 where m: "m = (r0, r1, r2)" by (cases m) auto
  let ?a = "\<lparr>shape = [length ps, 3], data = ravel ps\<rparr>"
  obtain p0 where p0: "np_mul_row r0 ?a = Inr p0" using mul_row_ok by blast
  obtain p1 where p1: "np_mul_row r1 ?a = Inr p1" using mul_row_ok by blast
  obtain p2 where p2: "np_mul_row r2 ?a = Inr p2" using mul_row_ok by blast
  have z: "zip (map (dot_row r0) ps) (zip (map (dot_row r1) ps) (map (dot_row r2) ps)) =
           map (dot_px m) ps"
    by (induction ps) (auto simp: dot_px_def m)
  have "dot_product m ?a =
        Inr (np_squeeze (np_dstack3 \<lparr>shape = [length ps], data = map (dot_row r0) ps\<rparr>
          \<lparr>shape = [length ps], data = map (dot_row r1) ps\<rparr>
          \<lparr>shape = [length ps], data = map (dot_row r2) ps\<rparr>))"
    by (simp add: dot_product_def m p0 p1 p2 sum_mul_row[OF p0] sum_mul_row[OF p1]
        sum_mul_row[OF p2] Let_def)
  also have "\<dots> = Inr (np_squeeze \<lparr>shape = [1, length ps, 3],
                 data = ravel (map (dot_px m) ps)\<rparr>)"
    using dstack_columns[of "map (dot_row r1) ps" "map (dot_row r0) ps" "map (dot_row r2) ps"]
    by (simp add: z)
  finally show ?thesis by (simp add: np_squeeze_def)
qed

text \<open>
  C10. For a single-row array of shape \<^verbatim>\<open>(1, 3)\<close>, \<^verbatim>\<open>_dot_product\<close> returns an array of
  shape \<^verbatim>\<open>(3,)\<close>, not \<^verbatim>\<open>(1, 3)\<close>: \<^verbatim>\<open>np.dstack\<close> gives the three sums the shape
  \<^verbatim>\<open>(1, 1, 3)\<close> and \<^verbatim>\<open>squeeze\<close> drops both axes of length one. The three entries are the
  products of the rows of the matrix with the pixel.
\<close>

theorem dot_product_single_row:
  "dot_product (r0, r1, r2) \<lparr>shape = [1, 3], data = [a, b, c]\<rparr> =
   Inr \<lparr>shape = [3],
        data = [dot_row r0 (a, b, c), dot_row r1 (a, b, c), dot_row r2 (a, b, c)]\<rparr>"
  using dot_product_rows[of "(r0, r1, r2)" "[(a, b, c)]"] by (simp add: ravel_def dot_px_def)

section \<open>What a kernel does to its argument\<close>




section \<open>Which implementation a call executes\<close>


lemma optimized_flags:
  "SIMD_ENABLED (snd (optimized name fn st)) = SIMD_ENABLED st \<and>
   CYTHON_ENABLED (snd (optimized name fn st)) = CYTHON_ENABLED st \<and>
   NUMEXPR_ENABLED (snd (optimized name fn st)) = NUMEXPR_ENABLED st"
  by (auto simp: optimized_def Let_def split: option.splits)




section \<open>Chunking does not change the result\<close>










section \<open>The ranges of hue, saturation and lightness\<close>












text \<open>
  A pixel whose \<open>V\<close> is exactly zero with the reference constants: every step of the
  pipeline is then rational arithmetic.
\<close>

lemma chroma_on_axis:
  "0 \<le> u \<Longrightarrow> fpowr (fadd (fpown (Fin u) 2) (fpown (Fin 0) 2)) (1 / 2) = Fin u"
proof -
  assume u: "0 \<le> u"
  have a: "fpown (Fin u) 2 = Fin (u * u)"
    using u by (simp add: numeral_2_eq_2 fmul_Fin_nonneg)
  have b: "fpown (Fin 0) 2 = Fin 0"
    by (simp add: numeral_2_eq_2 fmul_Fin_nonneg)
  have "(u * u) powr (1 / 2) = u"
    using u by (simp add: powr_half_sqrt)
  then show ?thesis using u by (simp add: a b fadd_Fin)
qed




















section \<open>The round trip of black\<close>

text \<open>
  With the reference constants the kernels map the float pixel \<open>(0, 0, 0)\<close> to the HUSL
  pixel \<open>(0, 0, 0)\<close> and back to itself: the zero denominators give NaN, which the
  masks and \<^verbatim>\<open>np.nan_to_num\<close> replace by zero, and the lightness is below \<^verbatim>\<open>L_MIN\<close> in
  both directions.
\<close>

lemma black_linear: "map_px to_linear_el (Fin 0, Fin 0, Fin 0) = (Fin 0, Fin 0, Fin 0)"
  by (simp add: map_px_def to_linear_el_def fgt_def fdiv_Fin)

lemma black_xyz: "dot_px (M_INV husl_consts) (Fin 0, Fin 0, Fin 0) = (Fin 0, Fin 0, Fin 0)"
  by (simp add: dot_px_def dot_row_def husl_consts_def fmul_Fin fadd_Fin)

lemma black_luv: "xyz_to_luv_px husl_consts (Fin 0, Fin 0, Fin 0) = (Fin 0, Fin 0, Fin 0)"
proof -
  have l: "light_px husl_consts (Fin 0, Fin 0, Fin 0) = Fin 0"
    by (simp add: light_px_def to_light_el_def husl_consts_def fgt_def fdiv_Fin fmul_Fin
        feq_def fle_def Let_def)
  have u: "U_var_px (Fin 0, Fin 0, Fin 0) = NaN" "V_var_px (Fin 0, Fin 0, Fin 0) = NaN"
    by (simp_all add: U_var_px_def V_var_px_def xyz_den_def fmul_Fin fadd_Fin fdiv_def
        is_zero_def mask_inf_def)
  show ?thesis
    by (simp add: xyz_to_luv_px_def l u Let_def fsub_NaN fmul_NaN)
qed

lemma black_lch: "luv_to_lch_px (Fin 0, Fin 0, Fin 0) = (Fin 0, Fin 0, Fin 0)"
  using chroma_on_axis[of 0]
  by (simp add: luv_to_lch_px_def luv_fix_px_def hue_px_def farctan2_def is_zero_def
      fdegrees_def fmul_Fin Let_def)

lemma black_to_husl:
  "rgb_to_husl husl_consts [(Fin 0, Fin 0, Fin 0)] = [(Fin 0, Fin 0, Fin 0)]"
  by (simp add: rgb_to_husl_map rgb_to_husl_px_def black_linear black_xyz black_luv black_lch
      lch_to_husl_px_def fgt_def L_MAX_def L_MIN_def)

lemma black_luv_back: "lch_to_luv_px (Fin 0, Fin 0, Fin 0) = (Fin 0, Fin 0, Fin 0)"
  by (simp add: lch_to_luv_px_def fradians_def fmul_Fin)

lemma black_xyz_back: "luv_to_xyz_px husl_consts (Fin 0, Fin 0, Fin 0) = (Fin 0, Fin 0, Fin 0)"
  by (simp add: luv_to_xyz_px_def Let_def feq_def fle_def)

lemma black_rgb_linear: "dot_px (M husl_consts) (Fin 0, Fin 0, Fin 0) = (Fin 0, Fin 0, Fin 0)"
  by (simp add: dot_px_def dot_row_def husl_consts_def fmul_Fin fin_signed_def fadd_def)

lemma black_gamma: "map_px from_linear_el (Fin 0, Fin 0, Fin 0) = (Fin 0, Fin 0, Fin 0)"
  by (simp add: map_px_def from_linear_el_def fle_def fmul_Fin)

lemma black_round_trip:
  "husl_to_rgb husl_consts (rgb_to_husl husl_consts [(Fin 0, Fin 0, Fin 0)]) =
   [(Fin 0, Fin 0, Fin 0)]"
  by (simp add: black_to_husl husl_to_rgb_map husl_to_rgb_px_def husl_to_lch_px_def L_MIN_def
      black_luv_back black_xyz_back black_rgb_linear black_gamma)


end
